theory Spec2Isabelle
  imports Main "HOL-Library.Word"
begin

section \<open>Static types and the class predicate\<close>

text \<open>
  The templates of \<open>SimpleClass\<close> are instantiated at the type \<open>T\<close> deduced from an
  argument passed as \<open>const T &\<close>: never a reference, cv-qualifiers dropped. The primary
  type categories that matter are listed; \<open>TVoid\<close> and \<open>TNullptr\<close> are there because
  \<open>std::enable_if_t\<close> is asked for them.
\<close>

datatype cpp_type =
    TVoid
  | TNullptr
  | TBool
  | TChar
  | TInt
  | TPointer cpp_type
  | TArray cpp_type nat
  | TUnion string
  | TClass string

text \<open>
  \<open>std::is_class<T>\<close> is a struct with a static member \<open>value\<close>, true exactly for the
  non-union class types. \<open>std::is_class_v<T>\<close> is \<open>std::is_class<T>::value\<close>.
\<close>

record bool_constant =
  val :: bool

definition is_class :: "cpp_type \<Rightarrow> bool_constant" where
  "is_class T = \<lparr>val = (case T of TClass n \<Rightarrow> True | _ \<Rightarrow> False)\<rparr>"

definition is_class_v :: "cpp_type \<Rightarrow> bool" where
  "is_class_v T = val (is_class T)"

text \<open>
  \<open>std::enable_if_t<B, X>\<close> names the type \<open>X\<close> when \<open>B\<close> is true and names nothing
  otherwise: substituting it fails, which is \<open>None\<close> here.
\<close>

definition enable_if_t :: "bool \<Rightarrow> cpp_type \<Rightarrow> cpp_type option" where
  "enable_if_t B X = (if B then Some X else None)"

definition IsClass :: "cpp_type \<Rightarrow> cpp_type option" where
  "IsClass T = enable_if_t (is_class_v T) TNullptr"

definition IsNotClass :: "cpp_type \<Rightarrow> cpp_type option" where
  "IsNotClass T = enable_if_t (\<not> is_class_v T) TNullptr"

definition IsClassV :: "cpp_type \<Rightarrow> cpp_type option" where
  "IsClassV T = enable_if_t (is_class_v T) TVoid"

definition IsNotClassV :: "cpp_type \<Rightarrow> cpp_type option" where
  "IsNotClassV T = enable_if_t (\<not> is_class_v T) TVoid"

section \<open>Values and the output stream\<close>

text \<open>
  The values that can be passed and streamed with \<open>operator<<\<close>: the built-in ones, the
  two text kinds that \<open>main\<close> uses (a \<open>std::string\<close> and a string literal, whose type is
  an array of \<open>char\<close> one longer than its text), and an object of a user-declared class or
  union, given by the name of its type and the text its own \<open>operator<<\<close> inserts.
\<close>

datatype cpp_value =
    VBool bool
  | VChar char
  | VInt "32 word"
  | VCStr string
  | VLiteral string
  | VString string
  | VObject string string
  | VUnion string string

fun type_of :: "cpp_value \<Rightarrow> cpp_type" where
  "type_of (VBool b) = TBool"
| "type_of (VChar c) = TChar"
| "type_of (VInt i) = TInt"
| "type_of (VCStr s) = TPointer TChar"
| "type_of (VLiteral s) = TArray TChar (length s + 1)"
| "type_of (VString s) = TClass ''std::string''"
| "type_of (VObject n s) = TClass n"
| "type_of (VUnion n s) = TUnion n"

text \<open>
  \<open>std::cout\<close>: the characters written so far and the one format flag the program
  touches. \<open>std::endl\<close> writes a newline (and flushes, which nothing here observes).
\<close>

record ostream =
  boolalpha_flag :: bool
  written :: string

definition boolalpha :: "ostream \<Rightarrow> ostream" where
  "boolalpha os = os\<lparr>boolalpha_flag := True\<rparr>"

definition put_str :: "string \<Rightarrow> ostream \<Rightarrow> ostream" where
  "put_str s os = os\<lparr>written := written os @ s\<rparr>"

definition endl :: "ostream \<Rightarrow> ostream" where
  "endl os = put_str [CHR 0x0A] os"

fun dec_nat :: "nat \<Rightarrow> string" where
  "dec_nat n = (if n < 10 then [char_of (48 + n)]
                else dec_nat (n div 10) @ [char_of (48 + n mod 10)])"

definition dec_int :: "int \<Rightarrow> string" where
  "dec_int i = (if i < 0 then CHR ''-'' # dec_nat (nat (- i)) else dec_nat (nat i))"

definition c_str :: "string \<Rightarrow> string" where
  "c_str s = takeWhile (\<lambda>c. c \<noteq> CHR 0x00) s"

text \<open>
  The characters \<open>operator<<\<close> produces for a value: a \<open>bool\<close> as a word when the
  stream's \<open>boolalpha\<close> flag is set and as a digit otherwise, an \<open>int\<close> in decimal, a
  character pointer or array up to its first NUL, a \<open>std::string\<close> whole.
\<close>

fun format :: "bool \<Rightarrow> cpp_value \<Rightarrow> string" where
  "format alpha (VBool b) =
     (if alpha then (if b then ''true'' else ''false'') else (if b then ''1'' else ''0''))"
| "format alpha (VChar c) = [c]"
| "format alpha (VInt i) = dec_int (sint i)"
| "format alpha (VCStr s) = c_str s"
| "format alpha (VLiteral s) = c_str s"
| "format alpha (VString s) = s"
| "format alpha (VObject n s) = s"
| "format alpha (VUnion n s) = s"

definition put_value :: "cpp_value \<Rightarrow> ostream \<Rightarrow> ostream" where
  "put_value v os = put_str (format (boolalpha_flag os) v) os"

text \<open>
  The program's state: \<open>std::cout\<close>, and whatever else there is in the record's
  extension. \<open>SimpleClass\<close> has no data member, so an object of it carries no state.
\<close>

record globals =
  cout :: ostream

section \<open>Overload resolution\<close>

text \<open>
  A candidate of an overloaded call is the type its gate names after substitution
  (\<open>None\<close> when substitution fails) and its body. Candidates whose substitution fails are
  dropped silently; the call is well-formed when exactly one is left. The candidates of
  this class have the same signature otherwise, so none is more specialised than another
  and two left over are an ambiguity.
\<close>

datatype build_error = NoMatchingFunction | AmbiguousCall

type_synonym 's candidate = "cpp_type option \<times> (cpp_value \<Rightarrow> 's \<Rightarrow> 's)"

definition viable :: "'s candidate list \<Rightarrow> 's candidate list" where
  "viable cands = filter (\<lambda>c. fst c \<noteq> None) cands"

definition call :: "'s candidate list \<Rightarrow> cpp_value \<Rightarrow> 's \<Rightarrow> build_error + 's" where
  "call cands name s =
     (case viable cands of
        [] \<Rightarrow> Inl NoMatchingFunction
      | [c] \<Rightarrow> Inr (snd c name s)
      | c # d # cs \<Rightarrow> Inl AmbiguousCall)"

section \<open>The methods of SimpleClass\<close>

definition amIAClass :: "cpp_value \<Rightarrow> 'a globals_scheme \<Rightarrow> 'a globals_scheme" where
  "amIAClass v s =
     s\<lparr>cout := endl (put_value (VBool (val (is_class (type_of v))))
                  (put_str '' << a class: '' (put_value v (put_str ''Is '' (cout s)))))\<rparr>"

definition amIAClass2 :: "cpp_value \<Rightarrow> 'a globals_scheme \<Rightarrow> 'a globals_scheme" where
  "amIAClass2 v s =
     s\<lparr>cout := endl (put_value (VBool (is_class_v (type_of v)))
                  (put_str '' << a class: '' (put_value v (put_str ''Is '' (cout s)))))\<rparr>"

definition nullExample :: "cpp_value \<Rightarrow> 'a globals_scheme \<Rightarrow> 'a globals_scheme" where
  "nullExample v s = s\<lparr>cout := endl (put_value v (put_str ''Null Works, '' (cout s)))\<rparr>"

definition nullExample2 :: "cpp_value \<Rightarrow> 'a globals_scheme \<Rightarrow> 'a globals_scheme" where
  "nullExample2 v s = s\<lparr>cout := endl (put_value v (put_str ''Null Works, '' (cout s)))\<rparr>"

text \<open>The two overloads of \<open>hello\<close>, and the call that chooses between them.\<close>

definition hello_class :: "cpp_value \<Rightarrow> 'a globals_scheme \<Rightarrow> 'a globals_scheme" where
  "hello_class name s = s\<lparr>cout := endl (put_value name (put_str ''Hello, '' (cout s)))\<rparr>"

definition hello_not_class :: "cpp_value \<Rightarrow> 'a globals_scheme \<Rightarrow> 'a globals_scheme" where
  "hello_not_class name s =
     s\<lparr>cout := endl (put_value name (put_str ''Goodbye, '' (cout s)))\<rparr>"

definition hello :: "cpp_value \<Rightarrow> 'a globals_scheme \<Rightarrow> build_error + 'a globals_scheme" where
  "hello name s =
     call [(enable_if_t (is_class_v (type_of name)) TNullptr, hello_class),
           (enable_if_t (\<not> is_class_v (type_of name)) TNullptr, hello_not_class)] name s"

text \<open>\<open>cleaner\<close>: the same gate through the aliases \<open>IsClass\<close> and \<open>IsNotClass\<close>.\<close>

definition cleaner_class :: "cpp_value \<Rightarrow> 'a globals_scheme \<Rightarrow> 'a globals_scheme" where
  "cleaner_class name s =
     s\<lparr>cout := endl (put_value name (put_str ''Is Class, '' (cout s)))\<rparr>"

definition cleaner_not_class :: "cpp_value \<Rightarrow> 'a globals_scheme \<Rightarrow> 'a globals_scheme" where
  "cleaner_not_class name s =
     s\<lparr>cout := endl (put_value name (put_str ''Not Class, '' (cout s)))\<rparr>"

definition cleaner :: "cpp_value \<Rightarrow> 'a globals_scheme \<Rightarrow> build_error + 'a globals_scheme" where
  "cleaner name s =
     call [(IsClass (type_of name), cleaner_class),
           (IsNotClass (type_of name), cleaner_not_class)] name s"

text \<open>\<open>another\<close>: the gate is the return type, \<open>void\<close> when it is open.\<close>

definition another_class :: "cpp_value \<Rightarrow> 'a globals_scheme \<Rightarrow> 'a globals_scheme" where
  "another_class name s =
     s\<lparr>cout := endl (put_value name (put_str ''Is Class, '' (cout s)))\<rparr>"

definition another_not_class :: "cpp_value \<Rightarrow> 'a globals_scheme \<Rightarrow> 'a globals_scheme" where
  "another_not_class name s =
     s\<lparr>cout := endl (put_value name (put_str ''Is not Class, '' (cout s)))\<rparr>"

definition another :: "cpp_value \<Rightarrow> 'a globals_scheme \<Rightarrow> build_error + 'a globals_scheme" where
  "another name s =
     call [(IsClassV (type_of name), another_class),
           (IsNotClassV (type_of name), another_not_class)] name s"

text \<open>
  \<open>asArgument\<close>: the gate is the type of an unnamed second parameter with the default
  value \<open>nullptr\<close>. The caller may leave it out (\<open>None\<close>) or pass \<open>nullptr\<close> itself, which
  needs the parameter's type to exist and to be \<open>std::nullptr_t\<close>.
\<close>

datatype nullptr_t = Nullptr

definition second_param :: "cpp_type option \<Rightarrow> nullptr_t option \<Rightarrow> cpp_type option" where
  "second_param P arg =
     (case arg of
        None \<Rightarrow> P
      | Some a \<Rightarrow> (if P = Some TNullptr then P else None))"

definition asArgument_class :: "cpp_value \<Rightarrow> 'a globals_scheme \<Rightarrow> 'a globals_scheme" where
  "asArgument_class name s =
     s\<lparr>cout := endl (put_value name (put_str ''AsArg: Is Class, '' (cout s)))\<rparr>"

definition asArgument_not_class :: "cpp_value \<Rightarrow> 'a globals_scheme \<Rightarrow> 'a globals_scheme" where
  "asArgument_not_class name s =
     s\<lparr>cout := endl (put_value name (put_str ''AsArg: Is Not Class, '' (cout s)))\<rparr>"

definition asArgument ::
  "cpp_value \<Rightarrow> nullptr_t option \<Rightarrow> 'a globals_scheme \<Rightarrow> build_error + 'a globals_scheme" where
  "asArgument name arg s =
     call [(second_param (IsClass (type_of name)) arg, asArgument_class),
           (second_param (IsNotClass (type_of name)) arg, asArgument_not_class)] name s"

section \<open>The entry point\<close>

fun and_then :: "build_error + 's \<Rightarrow> ('s \<Rightarrow> build_error + 's) \<Rightarrow> build_error + 's" where
  "and_then (Inl e) f = Inl e"
| "and_then (Inr s) f = f s"

text \<open>
  \<open>main\<close> names neither of its parameters. It sets \<open>boolalpha\<close>, makes its thirteen calls
  in order and returns 0. A call that cannot be resolved means there is no program.
\<close>

definition main ::
  "int \<Rightarrow> string list \<Rightarrow> 'a globals_scheme \<Rightarrow> build_error + (int \<times> 'a globals_scheme)" where
  "main argc argv s0 =
     (case foldl and_then (Inr (s0\<lparr>cout := boolalpha (cout s0)\<rparr>))
        [Inr \<circ> amIAClass (VString ''A String''),
         Inr \<circ> amIAClass (VLiteral ''Constant''),
         Inr \<circ> amIAClass2 (VLiteral ''Constant''),
         Inr \<circ> nullExample (VLiteral ''Some Null''),
         Inr \<circ> nullExample2 (VLiteral ''Again''),
         hello (VString ''Joe''),
         hello (VLiteral ''Again''),
         cleaner (VString ''Joe''),
         cleaner (VLiteral ''Again''),
         another (VString ''Joe''),
         another (VLiteral ''Again''),
         asArgument (VString ''Joe'') (Some Nullptr),
         asArgument (VLiteral ''Again'') None]
      of Inl e \<Rightarrow> Inl e
       | Inr s \<Rightarrow> Inr (0, s))"

text \<open>The state a run starts from: nothing written, \<open>boolalpha\<close> off.\<close>

definition start :: globals where
  "start = \<lparr>cout = \<lparr>boolalpha_flag = False, written = []\<rparr>\<rparr>"

section \<open>Lines of output\<close>

text \<open>
  Every body of the class is \<open>cout << label << value << endl\<close>. \<open>emit_line\<close> is the state
  after one such line: the label, the characters of the value and a newline appended to
  what was written, nothing else touched.
\<close>

definition emit_line :: "string \<Rightarrow> cpp_value \<Rightarrow> 'a globals_scheme \<Rightarrow> 'a globals_scheme" where
  "emit_line label v s =
     s\<lparr>cout := (cout s)\<lparr>written :=
        written (cout s) @ label @ format (boolalpha_flag (cout s)) v @ ''\<newline>''\<rparr>\<rparr>"

lemma is_class_v_iff: "is_class_v T = (\<exists>n. T = TClass n)"
  by (cases T) (simp_all add: is_class_v_def is_class_def)

lemma body_line:
  "s\<lparr>cout := endl (put_value v (put_str label (cout s)))\<rparr> = emit_line label v s"
  by (simp add: emit_line_def endl_def put_value_def put_str_def)

lemma emit_line_written:
  "written (cout (emit_line l v s)) =
     written (cout s) @ l @ format (boolalpha_flag (cout s)) v @ ''\<newline>''"
  by (simp add: emit_line_def)

text \<open>Two lines for the same value from the same state are equal only when their labels are.\<close>

lemma emit_line_label: "(emit_line l1 v s = emit_line l2 v s) = (l1 = l2)"
proof
  assume "emit_line l1 v s = emit_line l2 v s"
  then have "written (cout (emit_line l1 v s)) = written (cout (emit_line l2 v s))"
    by simp
  then show "l1 = l2"
    by (simp add: emit_line_written)
qed simp

lemma emit_line_appends:
  "\<exists>line. emit_line l v s = s\<lparr>cout := (cout s)\<lparr>written := written (cout s) @ line\<rparr>\<rparr>"
  unfolding emit_line_def by (rule exI) (rule refl)

section \<open>Resolution of the gated pairs\<close>

text \<open>
  Two candidates gated by a condition and by its negation: substitution fails in exactly
  one of them, so the call is neither unmatched nor ambiguous.
\<close>

lemma call_gated:
  "call [(enable_if_t B X, f), (enable_if_t (\<not> B) Y, g)] v s = Inr ((if B then f else g) v s)"
  by (simp add: call_def viable_def enable_if_t_def)

text \<open>An explicit \<open>nullptr\<close> fits the gated parameter whenever the parameter exists.\<close>

lemma second_param_gate:
  "second_param (enable_if_t B TNullptr) arg = enable_if_t B TNullptr"
  by (cases arg) (simp_all add: second_param_def enable_if_t_def)

lemma hello_line:
  "hello v s = Inr (emit_line (if is_class_v (type_of v) then ''Hello, '' else ''Goodbye, '') v s)"
  unfolding hello_def call_gated hello_class_def hello_not_class_def body_line by simp

lemma cleaner_line:
  "cleaner v s =
     Inr (emit_line (if is_class_v (type_of v) then ''Is Class, '' else ''Not Class, '') v s)"
  unfolding cleaner_def IsClass_def IsNotClass_def call_gated
    cleaner_class_def cleaner_not_class_def body_line by simp

lemma another_line:
  "another v s =
     Inr (emit_line (if is_class_v (type_of v) then ''Is Class, '' else ''Is not Class, '') v s)"
  unfolding another_def IsClassV_def IsNotClassV_def call_gated
    another_class_def another_not_class_def body_line by simp

lemma asArgument_line:
  "asArgument v arg s =
     Inr (emit_line (if is_class_v (type_of v) then ''AsArg: Is Class, ''
                     else ''AsArg: Is Not Class, '') v s)"
  unfolding asArgument_def IsClass_def IsNotClass_def second_param_gate call_gated
    asArgument_class_def asArgument_not_class_def body_line by simp

lemma amIAClass_line:
  "amIAClass v s = s\<lparr>cout := (cout s)\<lparr>written := written (cout s) @ ''Is '' @
      format (boolalpha_flag (cout s)) v @ '' << a class: '' @
      format (boolalpha_flag (cout s)) (VBool (is_class_v (type_of v))) @ ''\<newline>''\<rparr>\<rparr>"
  by (simp add: amIAClass_def endl_def put_value_def put_str_def is_class_v_def)

lemma amIAClass2_line:
  "amIAClass2 v s = s\<lparr>cout := (cout s)\<lparr>written := written (cout s) @ ''Is '' @
      format (boolalpha_flag (cout s)) v @ '' << a class: '' @
      format (boolalpha_flag (cout s)) (VBool (is_class_v (type_of v))) @ ''\<newline>''\<rparr>\<rparr>"
  by (simp add: amIAClass2_def endl_def put_value_def put_str_def)

lemma nullExample_line: "nullExample v s = emit_line ''Null Works, '' v s"
  unfolding nullExample_def by (rule body_line)

lemma nullExample2_line: "nullExample2 v s = emit_line ''Null Works, '' v s"
  unfolding nullExample2_def by (rule body_line)

text \<open>A whole run: the exit code and the thirteen lines, from any state.\<close>

lemma main_run:
  "main argc argv s =
     Inr (0, s\<lparr>cout := (cout s)\<lparr>boolalpha_flag := True, written := written (cout s) @
       ''Is A String << a class: true\<newline>'' @
       ''Is Constant << a class: false\<newline>'' @
       ''Is Constant << a class: false\<newline>'' @
       ''Null Works, Some Null\<newline>'' @
       ''Null Works, Again\<newline>'' @
       ''Hello, Joe\<newline>'' @
       ''Goodbye, Again\<newline>'' @
       ''Is Class, Joe\<newline>'' @
       ''Not Class, Again\<newline>'' @
       ''Is Class, Joe\<newline>'' @
       ''Is not Class, Again\<newline>'' @
       ''AsArg: Is Class, Joe\<newline>'' @
       ''AsArg: Is Not Class, Again\<newline>''\<rparr>\<rparr>)"
  by (simp add: main_def hello_line cleaner_line another_line asArgument_line
      amIAClass_line amIAClass2_line nullExample_line nullExample2_line
      is_class_v_iff emit_line_def boolalpha_def c_str_def)

section \<open>The claims\<close>

text \<open>
  C1. For every value, whatever its type, each gated dispatcher (\<open>hello\<close>, \<open>cleaner\<close>,
  \<open>another\<close>, \<open>asArgument\<close>) resolves and emits one line: the line with the label of its
  class overload if and only if the type is a class, and the line with the label of its
  other overload if and only if the type is not a class. The two can never hold together
  and one of them always holds.
\<close>

theorem dispatch_exactly_one_line:
  "(hello v s = Inr (emit_line ''Hello, '' v s)) = is_class_v (type_of v)
   \<and> (hello v s = Inr (emit_line ''Goodbye, '' v s)) = (\<not> is_class_v (type_of v))
   \<and> (cleaner v s = Inr (emit_line ''Is Class, '' v s)) = is_class_v (type_of v)
   \<and> (cleaner v s = Inr (emit_line ''Not Class, '' v s)) = (\<not> is_class_v (type_of v))
   \<and> (another v s = Inr (emit_line ''Is Class, '' v s)) = is_class_v (type_of v)
   \<and> (another v s = Inr (emit_line ''Is not Class, '' v s)) = (\<not> is_class_v (type_of v))
   \<and> (asArgument v arg s = Inr (emit_line ''AsArg: Is Class, '' v s)) = is_class_v (type_of v)
   \<and> (asArgument v arg s = Inr (emit_line ''AsArg: Is Not Class, '' v s))
       = (\<not> is_class_v (type_of v))"
  by (simp add: hello_line cleaner_line another_line asArgument_line emit_line_label)

text \<open>
  C2, as stated: the alternative forms of the dispatcher, given the same value, produce
  byte-identical lines. They do not: for the \<open>std::string\<close> \<open>Joe\<close>, \<open>hello\<close> writes
  \<open>Hello, Joe\<close> and \<open>cleaner\<close> writes \<open>Is Class, Joe\<close>.
\<close>

theorem forms_differ_counterexample:
  "hello (VString ''Joe'') start \<noteq> cleaner (VString ''Joe'') start"
  by (simp add: hello_line cleaner_line emit_line_label)

text \<open>
  C2, amended. For every value, the four forms take the same branch (all the class
  overload or all the other one) and each emits one line made of its own label, the same
  characters of the value and a newline. The labels are each form's own:
  \<open>Hello, \<close>/\<open>Goodbye, \<close> for \<open>hello\<close>, \<open>Is Class, \<close>/\<open>Not Class, \<close> for \<open>cleaner\<close>,
  \<open>Is Class, \<close>/\<open>Is not Class, \<close> for \<open>another\<close> and
  \<open>AsArg: Is Class, \<close>/\<open>AsArg: Is Not Class, \<close> for \<open>asArgument\<close>.
\<close>

theorem forms_same_branch:
  "hello v s = Inr (emit_line (if is_class_v (type_of v) then ''Hello, '' else ''Goodbye, '') v s)
   \<and> cleaner v s =
       Inr (emit_line (if is_class_v (type_of v) then ''Is Class, '' else ''Not Class, '') v s)
   \<and> another v s =
       Inr (emit_line (if is_class_v (type_of v) then ''Is Class, '' else ''Is not Class, '') v s)
   \<and> asArgument v arg s =
       Inr (emit_line (if is_class_v (type_of v) then ''AsArg: Is Class, ''
                       else ''AsArg: Is Not Class, '') v s)"
  by (simp only: hello_line cleaner_line another_line asArgument_line simp_thms)

text \<open>
  C3. \<open>hello\<close> with the \<open>std::string\<close> \<open>Joe\<close> writes the line \<open>Hello, Joe\<close>, and with the
  string literal \<open>Again\<close> the line \<open>Goodbye, Again\<close>, from any state; a run of \<open>main\<close>
  writes them as its sixth and seventh lines.
\<close>

theorem hello_joe_again:
  "hello (VString ''Joe'') s =
     Inr (s\<lparr>cout := (cout s)\<lparr>written := written (cout s) @ ''Hello, Joe\<newline>''\<rparr>\<rparr>)
   \<and> hello (VLiteral ''Again'') s =
     Inr (s\<lparr>cout := (cout s)\<lparr>written := written (cout s) @ ''Goodbye, Again\<newline>''\<rparr>\<rparr>)
   \<and> (\<exists>s'. main argc argv start = Inr (0, s') \<and> written (cout s') =
         ''Is A String << a class: true\<newline>'' @
         ''Is Constant << a class: false\<newline>'' @
         ''Is Constant << a class: false\<newline>'' @
         ''Null Works, Some Null\<newline>'' @
         ''Null Works, Again\<newline>'' @
         ''Hello, Joe\<newline>'' @
         ''Goodbye, Again\<newline>'' @
         ''Is Class, Joe\<newline>'' @
         ''Not Class, Again\<newline>'' @
         ''Is Class, Joe\<newline>'' @
         ''Is not Class, Again\<newline>'' @
         ''AsArg: Is Class, Joe\<newline>'' @
         ''AsArg: Is Not Class, Again\<newline>'')"
  by (simp add: hello_line is_class_v_iff emit_line_def c_str_def main_run start_def)

text \<open>
  C4. Once \<open>main\<close> has set \<open>boolalpha\<close>, \<open>amIAClass\<close> with the \<open>std::string\<close> \<open>A String\<close>
  writes a line that ends in the word \<open>true\<close>, and with the string literal \<open>Constant\<close> a
  line that ends in the word \<open>false\<close>: words, not 1 and 0. They are the first two lines
  of a run of \<open>main\<close>.
\<close>

theorem amIAClass_true_false:
  "amIAClass (VString ''A String'') (s\<lparr>cout := boolalpha (cout s)\<rparr>) =
     s\<lparr>cout := (cout s)\<lparr>boolalpha_flag := True,
        written := written (cout s) @ ''Is A String << a class: true\<newline>''\<rparr>\<rparr>
   \<and> amIAClass (VLiteral ''Constant'') (s\<lparr>cout := boolalpha (cout s)\<rparr>) =
     s\<lparr>cout := (cout s)\<lparr>boolalpha_flag := True,
        written := written (cout s) @ ''Is Constant << a class: false\<newline>''\<rparr>\<rparr>
   \<and> (\<exists>s' rest. main argc argv start = Inr (0, s') \<and> written (cout s') =
         ''Is A String << a class: true\<newline>'' @
         ''Is Constant << a class: false\<newline>'' @ rest)"
  by (simp add: amIAClass_line is_class_v_iff boolalpha_def c_str_def main_run start_def)

text \<open>
  C6. Which overload runs depends on the type alone: two values of one type, passed from
  any two states, take the same branch in every dispatcher, so their lines carry the same
  label.
\<close>

theorem same_type_same_branch:
  assumes "type_of va = type_of vb"
  shows "\<exists>c.
      hello va sa = Inr (emit_line (if c then ''Hello, '' else ''Goodbye, '') va sa)
    \<and> hello vb sb = Inr (emit_line (if c then ''Hello, '' else ''Goodbye, '') vb sb)
    \<and> cleaner va sa = Inr (emit_line (if c then ''Is Class, '' else ''Not Class, '') va sa)
    \<and> cleaner vb sb = Inr (emit_line (if c then ''Is Class, '' else ''Not Class, '') vb sb)
    \<and> another va sa = Inr (emit_line (if c then ''Is Class, '' else ''Is not Class, '') va sa)
    \<and> another vb sb = Inr (emit_line (if c then ''Is Class, '' else ''Is not Class, '') vb sb)
    \<and> asArgument va arga sa =
        Inr (emit_line (if c then ''AsArg: Is Class, '' else ''AsArg: Is Not Class, '') va sa)
    \<and> asArgument vb argb sb =
        Inr (emit_line (if c then ''AsArg: Is Class, '' else ''AsArg: Is Not Class, '') vb sb)"
  by (rule exI [of _ "is_class_v (type_of vb)"])
    (simp only: hello_line cleaner_line another_line asArgument_line assms simp_thms)

theorem same_type_same_branch_witness:
  "type_of (VLiteral ''Again'') = type_of (VLiteral ''Hello'')
   \<and> (\<exists>c.
      hello (VLiteral ''Again'') start =
        Inr (emit_line (if c then ''Hello, '' else ''Goodbye, '') (VLiteral ''Again'') start)
    \<and> hello (VLiteral ''Hello'') start =
        Inr (emit_line (if c then ''Hello, '' else ''Goodbye, '') (VLiteral ''Hello'') start)
    \<and> cleaner (VLiteral ''Again'') start =
        Inr (emit_line (if c then ''Is Class, '' else ''Not Class, '')
          (VLiteral ''Again'') start)
    \<and> cleaner (VLiteral ''Hello'') start =
        Inr (emit_line (if c then ''Is Class, '' else ''Not Class, '')
          (VLiteral ''Hello'') start)
    \<and> another (VLiteral ''Again'') start =
        Inr (emit_line (if c then ''Is Class, '' else ''Is not Class, '')
          (VLiteral ''Again'') start)
    \<and> another (VLiteral ''Hello'') start =
        Inr (emit_line (if c then ''Is Class, '' else ''Is not Class, '')
          (VLiteral ''Hello'') start)
    \<and> asArgument (VLiteral ''Again'') None start =
        Inr (emit_line (if c then ''AsArg: Is Class, '' else ''AsArg: Is Not Class, '')
          (VLiteral ''Again'') start)
    \<and> asArgument (VLiteral ''Hello'') None start =
        Inr (emit_line (if c then ''AsArg: Is Class, '' else ''AsArg: Is Not Class, '')
          (VLiteral ''Hello'') start))"
proof -
  have same: "type_of (VLiteral ''Again'') = type_of (VLiteral ''Hello'')"
    by simp
  show ?thesis
    by (rule conjI [OF same same_type_same_branch [OF same]])
qed

text \<open>
  C7. A dispatcher invoked twice in a row with the same value succeeds both times, and
  the second invocation appends the very line the first one appended: the label of the
  branch for the value's type, the characters of the value and a newline.
\<close>

theorem twice_same_line:
  "(\<exists>line.
      line = (if is_class_v (type_of v) then ''Hello, '' else ''Goodbye, '')
               @ format (boolalpha_flag (cout s)) v @ ''\<newline>''
    \<and> hello v s = Inr (s\<lparr>cout := (cout s)\<lparr>written := written (cout s) @ line\<rparr>\<rparr>)
    \<and> hello v (s\<lparr>cout := (cout s)\<lparr>written := written (cout s) @ line\<rparr>\<rparr>) =
        Inr (s\<lparr>cout := (cout s)\<lparr>written := written (cout s) @ line @ line\<rparr>\<rparr>))
   \<and> (\<exists>line.
      line = (if is_class_v (type_of v) then ''Is Class, '' else ''Not Class, '')
               @ format (boolalpha_flag (cout s)) v @ ''\<newline>''
    \<and> cleaner v s = Inr (s\<lparr>cout := (cout s)\<lparr>written := written (cout s) @ line\<rparr>\<rparr>)
    \<and> cleaner v (s\<lparr>cout := (cout s)\<lparr>written := written (cout s) @ line\<rparr>\<rparr>) =
        Inr (s\<lparr>cout := (cout s)\<lparr>written := written (cout s) @ line @ line\<rparr>\<rparr>))
   \<and> (\<exists>line.
      line = (if is_class_v (type_of v) then ''Is Class, '' else ''Is not Class, '')
               @ format (boolalpha_flag (cout s)) v @ ''\<newline>''
    \<and> another v s = Inr (s\<lparr>cout := (cout s)\<lparr>written := written (cout s) @ line\<rparr>\<rparr>)
    \<and> another v (s\<lparr>cout := (cout s)\<lparr>written := written (cout s) @ line\<rparr>\<rparr>) =
        Inr (s\<lparr>cout := (cout s)\<lparr>written := written (cout s) @ line @ line\<rparr>\<rparr>))
   \<and> (\<exists>line.
      line = (if is_class_v (type_of v) then ''AsArg: Is Class, '' else ''AsArg: Is Not Class, '')
               @ format (boolalpha_flag (cout s)) v @ ''\<newline>''
    \<and> asArgument v arg s =
        Inr (s\<lparr>cout := (cout s)\<lparr>written := written (cout s) @ line\<rparr>\<rparr>)
    \<and> asArgument v arg (s\<lparr>cout := (cout s)\<lparr>written := written (cout s) @ line\<rparr>\<rparr>) =
        Inr (s\<lparr>cout := (cout s)\<lparr>written := written (cout s) @ line @ line\<rparr>\<rparr>))"
  by (simp add: hello_line cleaner_line another_line asArgument_line emit_line_def)

text \<open>
  C8. \<open>main\<close> is the one entry point; it does not look at its arguments, and every run,
  from any state, ends with exit code 0.
\<close>

theorem main_exit_code:
  "(\<exists>s'. main argc argv s = Inr (0, s')) \<and> main argc argv s = main argc' argv' s"
  by (simp add: main_run)

text \<open>
  C9. Every public method of \<open>SimpleClass\<close> leaves the program state as it was except for
  characters appended to what \<open>std::cout\<close> has written: the format flag of the stream, the
  earlier output and the rest of the state (the extension of the record) are unchanged.
  The object has no data member and the argument is taken by reference to const, so
  neither is part of what a method can return changed.
\<close>

theorem methods_only_write:
  "(\<exists>line. amIAClass v s = s\<lparr>cout := (cout s)\<lparr>written := written (cout s) @ line\<rparr>\<rparr>)
   \<and> (\<exists>line. amIAClass2 v s = s\<lparr>cout := (cout s)\<lparr>written := written (cout s) @ line\<rparr>\<rparr>)
   \<and> (\<exists>line. nullExample v s = s\<lparr>cout := (cout s)\<lparr>written := written (cout s) @ line\<rparr>\<rparr>)
   \<and> (\<exists>line. nullExample2 v s = s\<lparr>cout := (cout s)\<lparr>written := written (cout s) @ line\<rparr>\<rparr>)
   \<and> (\<exists>line. hello v s = Inr (s\<lparr>cout := (cout s)\<lparr>written := written (cout s) @ line\<rparr>\<rparr>))
   \<and> (\<exists>line. cleaner v s = Inr (s\<lparr>cout := (cout s)\<lparr>written := written (cout s) @ line\<rparr>\<rparr>))
   \<and> (\<exists>line. another v s = Inr (s\<lparr>cout := (cout s)\<lparr>written := written (cout s) @ line\<rparr>\<rparr>))
   \<and> (\<exists>line. asArgument v arg s =
         Inr (s\<lparr>cout := (cout s)\<lparr>written := written (cout s) @ line\<rparr>\<rparr>))"
proof -
  have "\<exists>line. amIAClass v s = s\<lparr>cout := (cout s)\<lparr>written := written (cout s) @ line\<rparr>\<rparr>"
    unfolding amIAClass_line by (rule exI) (rule refl)
  moreover
  have "\<exists>line. amIAClass2 v s = s\<lparr>cout := (cout s)\<lparr>written := written (cout s) @ line\<rparr>\<rparr>"
    unfolding amIAClass2_line by (rule exI) (rule refl)
  ultimately show ?thesis
    by (simp only: hello_line cleaner_line another_line asArgument_line
        nullExample_line nullExample2_line emit_line_appends sum.inject simp_thms)
qed

text \<open>
  C10. \<open>amIAClass\<close> and \<open>amIAClass2\<close> do the same for every value and state: the
  \<open>::value\<close> form and the \<open>_v\<close> form of the predicate are interchangeable. For a value of
  a class type, \<open>asArgument\<close> with \<open>nullptr\<close> passed for the gate does the same as
  \<open>asArgument\<close> with the default argument.
\<close>

theorem value_forms_agree:
  "amIAClass v s = amIAClass2 v s
   \<and> (is_class_v (type_of v) \<longrightarrow> asArgument v (Some Nullptr) s = asArgument v None s)"
  by (simp add: amIAClass_line amIAClass2_line asArgument_line)

theorem value_forms_agree_witness:
  "is_class_v (type_of (VString ''Joe''))
   \<and> amIAClass (VString ''Joe'') start = amIAClass2 (VString ''Joe'') start
   \<and> asArgument (VString ''Joe'') (Some Nullptr) start = asArgument (VString ''Joe'') None start"
proof -
  have cls: "is_class_v (type_of (VString ''Joe''))"
    by (simp add: is_class_v_iff)
  show ?thesis
    using cls value_forms_agree [of "VString ''Joe''" start] by blast
qed

end
